theory Spec2Isabelle
  imports Main "HOL-Library.AList"
begin

section \<open>Python values\<close>

text \<open>
  The program keeps every entity as a Python dict (class \<open>MusicObject(dict)\<close>), and
  builds it from dicts returned by the remote API or read back from JSON. The values
  that occur are the JSON ones: \<open>None\<close>, booleans, integers, strings, lists and dicts
  with string keys. Floating point numbers are left out. A dict is an association list
  in insertion order; \<open>d[k] = v\<close> is \<open>AList.update\<close>, which overwrites an
  existing key in place and appends a new one. Strings are lists of \<open>char\<close>, that is
  of code points below 256.

  A dict subclass instance compares, prints as JSON and is indexed like the dict of its
  items, so an entity is modelled by that dict; the class only selects the methods, which
  are separate functions here (\<open>Artist_fill\<close>, \<open>Album_fill\<close>, ...).
\<close>

datatype pyval =
    PNone
  | PBool bool
  | PInt int
  | PStr string
  | PList "pyval list"
  | PDict "(string \<times> pyval) list"

type_synonym pydict = "(string \<times> pyval) list"

datatype error =
    KeyError string
  | TypeError
  | IndexError
  | ValueError
  | SystemExit string
  | LookupFailure string

text \<open>Sequencing of statements that may raise: the first exception ends the block.\<close>

definition ebind :: "error + 'a \<Rightarrow> ('a \<Rightarrow> error + 'b) \<Rightarrow> error + 'b" where
  "ebind m f = (case m of Inl e \<Rightarrow> Inl e | Inr x \<Rightarrow> f x)"

text \<open>A list comprehension \<open>[f(x) for x in xs]\<close> whose body may raise.\<close>

fun mapM_err :: "('a \<Rightarrow> error + 'b) \<Rightarrow> 'a list \<Rightarrow> error + 'b list" where
  "mapM_err f [] = Inr []"
| "mapM_err f (x # xs) =
     (case f x of
        Inl e \<Rightarrow> Inl e
      | Inr y \<Rightarrow> (case mapM_err f xs of Inl e \<Rightarrow> Inl e | Inr ys \<Rightarrow> Inr (y # ys)))"

text \<open>\<open>try: body  except KeyError: default\<close> and the same for \<open>TypeError\<close>.\<close>

definition except_KeyError :: "error + 'a \<Rightarrow> (error + 'a) \<Rightarrow> error + 'a" where
  "except_KeyError body handler =
     (case body of Inl (KeyError k) \<Rightarrow> handler | r \<Rightarrow> r)"

definition except_TypeError :: "error + 'a \<Rightarrow> (error + 'a) \<Rightarrow> error + 'a" where
  "except_TypeError body handler =
     (case body of Inl TypeError \<Rightarrow> handler | r \<Rightarrow> r)"

text \<open>\<open>d[k]\<close> on a dict, and \<open>v[k]\<close> with a string key on any value: only a dict accepts it.\<close>

definition dict_get :: "pydict \<Rightarrow> string \<Rightarrow> error + pyval" where
  "dict_get d k = (case map_of d k of None \<Rightarrow> Inl (KeyError k) | Some v \<Rightarrow> Inr v)"

definition getitem :: "pyval \<Rightarrow> string \<Rightarrow> error + pyval" where
  "getitem v k = (case v of PDict d \<Rightarrow> dict_get d k | _ \<Rightarrow> Inl TypeError)"

definition setitem :: "pydict \<Rightarrow> string \<Rightarrow> pyval \<Rightarrow> pydict" where
  "setitem d k v = AList.update k v d"

text \<open>
  \<open>v[0]\<close>: the first element of a list, the first character of a string (as a string of
  length one), \<open>IndexError\<close> when either is empty. A dict is asked for the key \<open>0\<close>,
  which no dict with string keys has. The other values are not subscriptable.
\<close>

definition index0 :: "pyval \<Rightarrow> error + pyval" where
  "index0 v =
     (case v of
        PList xs \<Rightarrow> (case xs of [] \<Rightarrow> Inl IndexError | x # _ \<Rightarrow> Inr x)
      | PStr s \<Rightarrow> (case s of [] \<Rightarrow> Inl IndexError | c # _ \<Rightarrow> Inr (PStr [c]))
      | PDict d \<Rightarrow> Inl (KeyError ''0'')
      | _ \<Rightarrow> Inl TypeError)"

text \<open>
  \<open>for x in v\<close>: a list gives its elements, a string its characters, a dict its keys;
  nothing else is iterable.
\<close>

definition iter :: "pyval \<Rightarrow> error + pyval list" where
  "iter v =
     (case v of
        PList xs \<Rightarrow> Inr xs
      | PStr s \<Rightarrow> Inr (map (\<lambda>c. PStr [c]) s)
      | PDict d \<Rightarrow> Inr (map (\<lambda>kv. PStr (fst kv)) d)
      | _ \<Rightarrow> Inl TypeError)"

text \<open>Truth value of an object, as \<open>if self['full']\<close> takes it.\<close>

definition truthy :: "pyval \<Rightarrow> bool" where
  "truthy v =
     (case v of
        PNone \<Rightarrow> False
      | PBool b \<Rightarrow> b
      | PInt n \<Rightarrow> n \<noteq> 0
      | PStr s \<Rightarrow> s \<noteq> []
      | PList xs \<Rightarrow> xs \<noteq> []
      | PDict d \<Rightarrow> d \<noteq> [])"

subsection \<open>Decimal numerals: \<open>str\<close>, \<open>int\<close>, \<open>zfill\<close>\<close>

definition digit_char :: "nat \<Rightarrow> char" where
  "digit_char d = ''0123456789'' ! d"

fun str_nat :: "nat \<Rightarrow> string" where
  "str_nat n = (if n < 10 then [digit_char n] else str_nat (n div 10) @ [digit_char (n mod 10)])"

declare str_nat.simps [simp del]

definition str_int :: "int \<Rightarrow> string" where
  "str_int i = (if i < 0 then CHR ''-'' # str_nat (nat (- i)) else str_nat (nat i))"

text \<open>
  \<open>s.zfill(w)\<close>: zeros are put in front until the length is \<open>w\<close>, after a leading sign.
\<close>

definition zfill :: "nat \<Rightarrow> string \<Rightarrow> string" where
  "zfill w s =
     (if w \<le> length s then s
      else (case s of
              c # rest \<Rightarrow>
                if c = CHR ''+'' \<or> c = CHR ''-''
                then c # replicate (w - length s) CHR ''0'' @ rest
                else replicate (w - length s) CHR ''0'' @ s
            | [] \<Rightarrow> replicate w CHR ''0''))"

text \<open>
  \<open>int(v)\<close>. On a string: white space around is dropped, then an optional sign and
  decimal digits, where single underscores may stand between digits; anything else is
  a \<open>ValueError\<close>. The white space \<open>int\<close> drops is tab to carriage return (9 to 13),
  the space, and the two spaces above 127 (next line, 133, and no-break space, 160); the
  separators 28 to 31 are not dropped.
\<close>

definition is_space :: "char \<Rightarrow> bool" where
  "is_space c = (let n = (of_char c :: nat) in
     (9 \<le> n \<and> n \<le> 13) \<or> n = 32 \<or> n = 133 \<or> n = 160)"

definition is_digit :: "char \<Rightarrow> bool" where
  "is_digit c = (let n = (of_char c :: nat) in 48 \<le> n \<and> n \<le> 57)"

definition digit_val :: "char \<Rightarrow> nat" where
  "digit_val c = of_char c - 48"

definition strip :: "string \<Rightarrow> string" where
  "strip s = rev (dropWhile is_space (rev (dropWhile is_space s)))"

text \<open>The digits after the sign: \<open>acc\<close> is the value read so far, \<open>us\<close> whether the
  last character was an underscore.\<close>

fun digits_from :: "nat \<Rightarrow> bool \<Rightarrow> string \<Rightarrow> nat option" where
  "digits_from acc us [] = (if us then None else Some acc)"
| "digits_from acc us (c # cs) =
     (if is_digit c then digits_from (10 * acc + digit_val c) False cs
      else if c = CHR ''_'' \<and> \<not> us then digits_from acc True cs
      else None)"

definition parse_digits :: "string \<Rightarrow> nat option" where
  "parse_digits s =
     (case s of
        [] \<Rightarrow> None
      | c # cs \<Rightarrow> if is_digit c then digits_from (digit_val c) False cs else None)"

definition int_of_str :: "string \<Rightarrow> error + int" where
  "int_of_str s =
     (case strip s of
        [] \<Rightarrow> Inl ValueError
      | c # cs \<Rightarrow>
          if c = CHR ''-'' then
            (case parse_digits cs of None \<Rightarrow> Inl ValueError | Some n \<Rightarrow> Inr (- int n))
          else if c = CHR ''+'' then
            (case parse_digits cs of None \<Rightarrow> Inl ValueError | Some n \<Rightarrow> Inr (int n))
          else
            (case parse_digits (c # cs) of None \<Rightarrow> Inl ValueError | Some n \<Rightarrow> Inr (int n)))"

definition py_int :: "pyval \<Rightarrow> error + int" where
  "py_int v =
     (case v of
        PInt n \<Rightarrow> Inr n
      | PBool b \<Rightarrow> Inr (if b then 1 else 0)
      | PStr s \<Rightarrow> int_of_str s
      | _ \<Rightarrow> Inl TypeError)"

text \<open>\<open>ord(c)\<close>: defined on a string of length one.\<close>

definition py_ord :: "pyval \<Rightarrow> error + nat" where
  "py_ord v = (case v of PStr [c] \<Rightarrow> Inr (of_char c) | _ \<Rightarrow> Inl TypeError)"

section \<open>Entities\<close>

text \<open>\<open>MusicObject.__init__\<close>: the four fields every entity has.\<close>

definition MusicObject_init :: "pydict \<Rightarrow> pyval \<Rightarrow> pyval \<Rightarrow> pyval \<Rightarrow> pyval \<Rightarrow> pydict" where
  "MusicObject_init self ident name kind full =
     setitem (setitem (setitem (setitem self ''id'' ident) ''name'' name) ''kind'' kind) ''full'' full"

text \<open>\<open>Song.time_from_ms\<close>: milliseconds as \<open>mm:ss\<close>; \<open>//\<close> and \<open>%\<close> round down,
  as \<open>div\<close> and \<open>mod\<close> on \<open>int\<close> do.\<close>

definition time_from_ms :: "pyval \<Rightarrow> error + string" where
  "time_from_ms ms0 =
     ebind (py_int ms0) (\<lambda>ms.
       let minutes = zfill 2 (str_int (ms div 60000));
           seconds = zfill 2 (str_int (ms div 1000 mod 60))
       in Inr (minutes @ '':'' @ seconds))"

subsection \<open>A measure for the constructors\<close>

text \<open>
  The three constructors call each other on the nested records and on dict literals built
  from fields of their argument. \<open>vsz\<close> counts the lists and dicts of a value: a
  nested record has fewer than the record holding it, and a literal built from distinct
  fields of a record has no more than the record.
\<close>

fun vsz :: "pyval \<Rightarrow> nat" where
  "vsz (PList xs) = Suc (sum_list (map vsz xs))"
| "vsz (PDict d) = Suc (sum_list (map (\<lambda>kv. vsz (snd kv)) d))"
| "vsz _ = 0"

abbreviation dsum :: "pydict \<Rightarrow> nat" where
  "dsum d \<equiv> sum_list (map (\<lambda>kv. vsz (snd kv)) d)"

lemma dsum_delete_le: "dsum (AList.delete k d) \<le> dsum d"
  by (induction d) auto

lemma dsum_delete:
  "map_of d k = Some v \<Longrightarrow> vsz v + dsum (AList.delete k d) \<le> dsum d"
proof (induction d)
  case Nil
  then show ?case by simp
next
  case (Cons kv d)
  then show ?case
    using dsum_delete_le [of k d] by (cases kv) (auto split: if_splits)
qed

lemma dsum_one: "map_of d k = Some v \<Longrightarrow> vsz v \<le> dsum d"
  using dsum_delete [of d k v] by simp

lemma dsum_two:
  assumes "map_of d k1 = Some v1" "map_of d k2 = Some v2" "k1 \<noteq> k2"
  shows "vsz v1 + vsz v2 \<le> dsum d"
proof -
  have "map_of (AList.delete k1 d) k2 = Some v2"
    using assms by (simp add: delete_conv)
  then have "vsz v2 \<le> dsum (AList.delete k1 d)" by (rule dsum_one)
  with dsum_delete [OF assms(1)] show ?thesis by simp
qed

lemma dsum_four:
  assumes "map_of d k1 = Some v1" "map_of d k2 = Some v2"
    "map_of d k3 = Some v3" "map_of d k4 = Some v4"
    "distinct [k1, k2, k3, k4]"
  shows "vsz v1 + vsz v2 + vsz v3 + vsz v4 \<le> dsum d"
proof -
  let ?d1 = "AList.delete k1 d"
  let ?d2 = "AList.delete k2 ?d1"
  have a: "map_of ?d1 k2 = Some v2" "map_of ?d1 k3 = Some v3" "map_of ?d1 k4 = Some v4"
    using assms by (auto simp: delete_conv)
  then have b: "map_of ?d2 k3 = Some v3" "map_of ?d2 k4 = Some v4"
    using assms by (auto simp: delete_conv)
  have "vsz v3 + vsz v4 \<le> dsum ?d2"
    using b assms(5) by (intro dsum_two) auto
  moreover have "vsz v2 + dsum ?d2 \<le> dsum ?d1" using a(1) by (rule dsum_delete)
  moreover have "vsz v1 + dsum ?d1 \<le> dsum d" using assms(1) by (rule dsum_delete)
  ultimately show ?thesis by simp
qed

lemma getitem_SomeD: "getitem v k = Inr x \<Longrightarrow> \<exists>d. v = PDict d \<and> map_of d k = Some x"
  by (auto simp: getitem_def dict_get_def split: pyval.splits option.splits)

lemma getitem_vsz: "getitem v k = Inr x \<Longrightarrow> vsz x < vsz v"
  by (auto dest!: getitem_SomeD dsum_one simp: less_Suc_eq_le)

lemma getitem_vsz2:
  "getitem v k1 = Inr x1 \<Longrightarrow> getitem v k2 = Inr x2 \<Longrightarrow> k1 \<noteq> k2 \<Longrightarrow>
   vsz x1 + vsz x2 < vsz v"
  by (auto dest!: getitem_SomeD simp: less_Suc_eq_le intro: dsum_two)

lemma getitem_vsz4:
  "getitem v k1 = Inr x1 \<Longrightarrow> getitem v k2 = Inr x2 \<Longrightarrow> getitem v k3 = Inr x3 \<Longrightarrow>
   getitem v k4 = Inr x4 \<Longrightarrow> distinct [k1, k2, k3, k4] \<Longrightarrow>
   vsz x1 + vsz x2 + vsz x3 + vsz x4 < vsz v"
  by (auto dest!: getitem_SomeD simp: less_Suc_eq_le simp del: distinct.simps
      intro: dsum_four)

lemma vsz_member: "x \<in> set xs \<Longrightarrow> vsz x \<le> sum_list (map vsz xs)"
  by (induction xs) auto

lemma iter_vsz: "iter v = Inr xs \<Longrightarrow> x \<in> set xs \<Longrightarrow> vsz x \<le> vsz v"
  by (auto simp: iter_def split: pyval.splits dest: vsz_member)

lemma index0_vsz: "index0 v = Inr x \<Longrightarrow> vsz x \<le> vsz v"
  by (auto simp: index0_def split: pyval.splits list.splits)

lemma getitem_iter_vsz:
  "getitem v k = Inr c \<Longrightarrow> iter c = Inr xs \<Longrightarrow> x \<in> set xs \<Longrightarrow> vsz x < vsz v"
  using getitem_vsz iter_vsz by (meson le_less_trans)

lemma ebind_cong [fundef_cong]:
  "m = m' \<Longrightarrow> (\<And>x. m' = Inr x \<Longrightarrow> f x = g x) \<Longrightarrow> ebind m f = ebind m' g"
  by (auto simp: ebind_def split: sum.splits)

lemma mapM_err_cong [fundef_cong]:
  "xs = ys \<Longrightarrow> (\<And>x. x \<in> set ys \<Longrightarrow> f x = g x) \<Longrightarrow> mapM_err f xs = mapM_err g ys"
  by (induction ys arbitrary: xs) (auto split: sum.splits)

subsection \<open>The constructors \<open>Artist\<close>, \<open>Album\<close>, \<open>Song\<close>\<close>

text \<open>
  Each \<open>__init__\<close> takes the record, the \<open>full\<close> flag and the \<open>source\<close>. The defaults
  of the source are passed explicitly at every call: \<open>full=False\<close> for artists and albums,
  \<open>full=True\<close> for songs, \<open>source='api'\<close>. With a source that is neither \<open>'api'\<close> nor
  \<open>'json'\<close> no branch runs and the entity stays the empty dict. The argument expressions
  are evaluated left to right, so the first missing key is the one reported. In the
  \<open>'api'\<close> branches the \<open>try\<close> block spans the whole comprehension, and so does
  \<open>except_KeyError\<close> here.
\<close>

function Artist :: "pyval \<Rightarrow> pyval \<Rightarrow> string \<Rightarrow> error + pydict"
  and Album :: "pyval \<Rightarrow> pyval \<Rightarrow> string \<Rightarrow> error + pydict"
  and Song :: "pyval \<Rightarrow> pyval \<Rightarrow> string \<Rightarrow> error + pydict"
where
  "Artist artist full source =
     (if source = ''api'' then
        ebind (getitem artist ''artistId'') (\<lambda>ident.
        ebind (getitem artist ''name'') (\<lambda>name.
        let self = MusicObject_init [] ident name (PStr ''artist'') full in
        ebind (except_KeyError
                 (ebind (getitem artist ''topTracks'') (\<lambda>tracks.
                  ebind (iter tracks) (\<lambda>ss.
                  mapM_err (\<lambda>s. Song s (PBool True) ''api'') ss)))
                 (Inr [])) (\<lambda>songs.
        let self = setitem self ''songs'' (PList (map PDict songs)) in
        ebind (except_KeyError
                 (ebind (getitem artist ''albums'') (\<lambda>albs.
                  ebind (iter albs) (\<lambda>as.
                  mapM_err (\<lambda>a. Album a (PBool False) ''api'') as)))
                 (Inr [])) (\<lambda>albums.
        Inr (setitem self ''albums'' (PList (map PDict albums)))))))
      else if source = ''json'' then
        ebind (getitem artist ''id'') (\<lambda>ident.
        ebind (getitem artist ''name'') (\<lambda>name.
        let self = MusicObject_init [] ident name (PStr ''artist'') full in
        ebind (getitem artist ''songs'') (\<lambda>tracks.
        ebind (iter tracks) (\<lambda>ss.
        ebind (mapM_err (\<lambda>s. Song s (PBool True) ''json'') ss) (\<lambda>songs.
        let self = setitem self ''songs'' (PList (map PDict songs)) in
        ebind (getitem artist ''albums'') (\<lambda>albs.
        ebind (iter albs) (\<lambda>as.
        ebind (mapM_err (\<lambda>a. Album a (PBool False) ''json'') as) (\<lambda>albums.
        Inr (setitem self ''albums'' (PList (map PDict albums)))))))))))
      else Inr [])"
| "Album album full source =
     (if source = ''api'' then
        ebind (getitem album ''albumId'') (\<lambda>ident.
        ebind (getitem album ''name'') (\<lambda>name.
        let self = MusicObject_init [] ident name (PStr ''album'') full in
        ebind (getitem album ''artistId'') (\<lambda>aids.
        ebind (index0 aids) (\<lambda>aid.
        ebind (getitem album ''artist'') (\<lambda>aname.
        ebind (Artist (PDict [(''artistId'', aid), (''name'', aname)]) (PBool False) ''api'') (\<lambda>a.
        let self = setitem self ''artist'' (PDict a) in
        ebind (except_KeyError
                 (ebind (getitem album ''tracks'') (\<lambda>tracks.
                  ebind (iter tracks) (\<lambda>ss.
                  mapM_err (\<lambda>s. Song s (PBool True) ''api'') ss)))
                 (Inr [])) (\<lambda>songs.
        Inr (setitem self ''songs'' (PList (map PDict songs))))))))))
      else if source = ''json'' then
        ebind (getitem album ''id'') (\<lambda>ident.
        ebind (getitem album ''name'') (\<lambda>name.
        let self = MusicObject_init [] ident name (PStr ''album'') full in
        ebind (getitem album ''artist'') (\<lambda>art.
        ebind (Artist art (PBool False) ''json'') (\<lambda>a.
        let self = setitem self ''artist'' (PDict a) in
        ebind (getitem album ''songs'') (\<lambda>tracks.
        ebind (iter tracks) (\<lambda>ss.
        ebind (mapM_err (\<lambda>s. Song s (PBool True) ''json'') ss) (\<lambda>songs.
        Inr (setitem self ''songs'' (PList (map PDict songs))))))))))
      else Inr [])"
| "Song song full source =
     (if source = ''api'' then
        ebind (getitem song ''storeId'') (\<lambda>ident.
        ebind (getitem song ''title'') (\<lambda>name.
        let self = MusicObject_init [] ident name (PStr ''song'') full in
        ebind (except_TypeError
                 (ebind (getitem song ''artist'') (\<lambda>aname.
                  ebind (getitem song ''artistId'') (\<lambda>aids.
                  ebind (index0 aids) (\<lambda>aid.
                  Artist (PDict [(''name'', aname), (''artistId'', aid)]) (PBool False) ''api''))))
                 (ebind (getitem song ''artist'') (\<lambda>aname.
                  ebind (getitem song ''artistId'') (\<lambda>aid.
                  Artist (PDict [(''name'', aname), (''artistId'', aid)]) (PBool False) ''api'')))) (\<lambda>a.
        let self = setitem self ''artist'' (PDict a) in
        ebind (getitem song ''album'') (\<lambda>bname.
        ebind (getitem song ''albumId'') (\<lambda>bid.
        ebind (getitem song ''artist'') (\<lambda>aname.
        ebind (getitem song ''artistId'') (\<lambda>aids.
        ebind (Album (PDict [(''name'', bname), (''albumId'', bid),
                             (''artist'', aname), (''artistId'', aids)]) (PBool False) ''api'') (\<lambda>b.
        let self = setitem self ''album'' (PDict b) in
        ebind (getitem song ''durationMillis'') (\<lambda>ms.
        ebind (time_from_ms ms) (\<lambda>t.
        Inr (setitem self ''time'' (PStr t))))))))))))
      else if source = ''json'' then
        ebind (getitem song ''id'') (\<lambda>ident.
        ebind (getitem song ''name'') (\<lambda>name.
        let self = MusicObject_init [] ident name (PStr ''song'') full in
        ebind (getitem song ''artist'') (\<lambda>art.
        ebind (Artist art (PBool False) ''json'') (\<lambda>a.
        let self = setitem self ''artist'' (PDict a) in
        ebind (getitem song ''album'') (\<lambda>alb.
        ebind (Album alb (PBool False) ''json'') (\<lambda>b.
        let self = setitem self ''album'' (PDict b) in
        ebind (getitem song ''time'') (\<lambda>t.
        Inr (setitem self ''time'' t))))))))
      else Inr [])"
  by pat_completeness auto
termination
  apply (relation "measure (\<lambda>x. case x of
            Inl (v, _, _) \<Rightarrow> 3 * vsz v
          | Inr (Inl (v, _, _)) \<Rightarrow> 3 * vsz v + 1
          | Inr (Inr (v, _, _)) \<Rightarrow> 3 * vsz v + 2)")
  apply simp_all
  subgoal by (drule (2) getitem_iter_vsz) simp
  subgoal by (drule (2) getitem_iter_vsz) simp
  subgoal by (drule (2) getitem_iter_vsz) simp
  subgoal by (drule (2) getitem_iter_vsz) simp
  subgoal for album full source x xa xb xc xd xe
    using getitem_vsz2 [of album "''artistId''" xc "''artist''" xe] index0_vsz [of xc xd]
    by simp
  subgoal by (drule (2) getitem_iter_vsz) simp
  subgoal by (drule getitem_vsz) simp
  subgoal by (drule (2) getitem_iter_vsz) simp
  subgoal for song full source x xa xb xc xd xe
    using getitem_vsz2 [of song "''artist''" xc "''artistId''" xd] index0_vsz [of xd xe]
    by simp
  subgoal for song full source x xa xb xc xd
    using getitem_vsz2 [of song "''artist''" xc "''artistId''" xd]
    by simp
  subgoal for song full source x xa xb xc xd xe xf xg xh
    using getitem_vsz4 [of song "''album''" xe "''albumId''" xf "''artist''" xg "''artistId''" xh]
    by simp
  subgoal by (drule getitem_vsz) simp
  subgoal by (drule getitem_vsz [where k = "''album''"]) simp
  done

text \<open>
  The equations hold for every argument, so they are unfolded only on a dict that is
  written out.
\<close>

declare Artist.simps [simp del] Album.simps [simp del] Song.simps [simp del]

lemmas Artist_PDict = Artist.simps [of "PDict d" for d]
lemmas Album_PDict = Album.simps [of "PDict d" for d]
lemmas Song_PDict = Song.simps [of "PDict d" for d]

lemmas py_eval = ebind_def except_KeyError_def except_TypeError_def getitem_def dict_get_def
  setitem_def index0_def iter_def MusicObject_init_def time_from_ms_def py_int_def
  int_of_str_def strip_def parse_digits_def is_space_def is_digit_def digit_val_def
  zfill_def str_int_def str_nat.simps digit_char_def Let_def

section \<open>Methods\<close>

subsection \<open>Hash and equality\<close>

text \<open>
  The body of \<open>MusicObject.__hash__\<close> is \<open>''.join(str(ord(c)) for c in self['id'])\<close>, the
  decimal code points of the id put together: \<open>hash_body\<close>. That value is a string.
  Hashing an object (\<open>hash(e)\<close>, putting it in a set, using it as a dict key) calls
  \<open>__hash__\<close> and accepts an integer only, so hashing an entity raises: the exception of
  the body if it has one, \<open>TypeError\<close> otherwise. \<open>MusicObject_hash\<close> is that hashing.
\<close>

definition hash_body :: "pydict \<Rightarrow> error + string" where
  "hash_body self =
     ebind (dict_get self ''id'') (\<lambda>ident.
     ebind (iter ident) (\<lambda>cs.
     ebind (mapM_err py_ord cs) (\<lambda>ns.
     Inr (concat (map str_nat ns)))))"

definition MusicObject_hash :: "pydict \<Rightarrow> error + int" where
  "MusicObject_hash self = ebind (hash_body self) (\<lambda>s. Inl TypeError)"

text \<open>
  The class defines no \<open>__eq__\<close>, so two entities compare as dicts do: \<open>py_eq\<close> is that
  comparison (same number of items, and every key of the left dict is in the right one
  with an equal value; \<open>True == 1\<close>).
\<close>

fun py_eq :: "pyval \<Rightarrow> pyval \<Rightarrow> bool" where
  "py_eq (PDict a) (PDict b) =
     (length a = length b \<and>
      (\<forall>kv \<in> set a. case map_of b (fst kv) of None \<Rightarrow> False | Some w \<Rightarrow> py_eq (snd kv) w))"
| "py_eq (PList xs) (PList ys) = list_all2 py_eq xs ys"
| "py_eq (PStr s) (PStr t) = (s = t)"
| "py_eq (PInt m) (PInt n) = (m = n)"
| "py_eq (PBool a) (PBool b) = (a = b)"
| "py_eq (PBool a) (PInt n) = ((if a then 1 else 0) = n)"
| "py_eq (PInt n) (PBool a) = (n = (if a then 1 else 0))"
| "py_eq PNone PNone = True"
| "py_eq _ _ = False"

subsection \<open>verify\<close>

text \<open>
  \<open>Artist.verify\<close> and \<open>Album.verify\<close> are \<open>all(k in item for k in (...))\<close>.
  \<open>Song.verify\<close> is \<open>all(k for k in (...))\<close>: it tests the key strings themselves and
  never looks at \<open>item\<close>.
\<close>

definition Artist_verify :: "pydict \<Rightarrow> bool" where
  "Artist_verify item =
     list_all (\<lambda>k. map_of item k \<noteq> None)
       [''id'', ''name'', ''kind'', ''full'', ''songs'', ''albums'']"

definition Album_verify :: "pydict \<Rightarrow> bool" where
  "Album_verify item =
     list_all (\<lambda>k. map_of item k \<noteq> None)
       [''id'', ''name'', ''kind'', ''full'', ''artist'', ''songs'']"

definition Song_verify :: "pydict \<Rightarrow> bool" where
  "Song_verify item =
     list_all (\<lambda>k. k \<noteq> [])
       [''id'', ''name'', ''kind'', ''full'', ''artist'', ''album'', ''time'']"

subsection \<open>str\<close>

text \<open>
  \<open>__str__\<close>: the name of an artist; \<open>' - '.join((self['name'], self['artist']['name']))\<close>
  for an album and for a song. \<open>join\<close> and \<open>str\<close> accept strings only.
\<close>

definition join2 :: "pyval \<Rightarrow> pyval \<Rightarrow> error + string" where
  "join2 a b =
     (case a of
        PStr s \<Rightarrow> (case b of PStr t \<Rightarrow> Inr (s @ '' - '' @ t) | _ \<Rightarrow> Inl TypeError)
      | _ \<Rightarrow> Inl TypeError)"

definition Artist_str :: "pydict \<Rightarrow> error + string" where
  "Artist_str self =
     ebind (dict_get self ''name'') (\<lambda>n. case n of PStr s \<Rightarrow> Inr s | _ \<Rightarrow> Inl TypeError)"

definition Album_str :: "pydict \<Rightarrow> error + string" where
  "Album_str self =
     ebind (dict_get self ''name'') (\<lambda>n.
     ebind (dict_get self ''artist'') (\<lambda>a.
     ebind (getitem a ''name'') (\<lambda>an.
     join2 n an)))"

definition Song_str :: "pydict \<Rightarrow> error + string" where
  "Song_str self =
     ebind (dict_get self ''name'') (\<lambda>n.
     ebind (dict_get self ''artist'') (\<lambda>a.
     ebind (getitem a ''name'') (\<lambda>an.
     join2 n an)))"

subsection \<open>State\<close>

text \<open>
  \<open>fill\<close> changes the entity in place and calls the lookup capability it is given. The
  state a method runs in is the entity together with the log of the lookups made so far;
  a method returns its result, or the exception it raised, and the state it leaves.
\<close>

datatype lookup_call = ArtistLookup pyval pyval | AlbumLookup pyval

record state =
  obj :: pydict
  lookups :: "lookup_call list"

subsection \<open>collect\<close>

text \<open>
  \<open>xs[:k]\<close> is \<open>slice_to xs k\<close>: a negative \<open>k\<close> counts from the end. \<open>collect\<close> takes
  \<open>self['songs'][:min(len(self['songs']), limit)]\<close>; a value without a length, and a dict,
  which cannot be sliced, raise \<open>TypeError\<close>. \<open>limit\<close> is an integer for artists
  and albums; a song ignores it.
\<close>

definition slice_to :: "'a list \<Rightarrow> int \<Rightarrow> 'a list" where
  "slice_to xs k = (if 0 \<le> k then take (nat k) xs else take (nat (int (length xs) + k)) xs)"

definition upto_limit :: "pyval \<Rightarrow> int \<Rightarrow> error + pyval" where
  "upto_limit v limit =
     (case v of
        PList xs \<Rightarrow> Inr (PList (slice_to xs (min (int (length xs)) limit)))
      | PStr s \<Rightarrow> Inr (PStr (slice_to s (min (int (length s)) limit)))
      | _ \<Rightarrow> Inl TypeError)"

definition Artist_collect :: "int \<Rightarrow> state \<Rightarrow> (error + pydict) \<times> state" where
  "Artist_collect limit s =
     (ebind (dict_get (obj s) ''songs'') (\<lambda>sv.
      ebind (upto_limit sv limit) (\<lambda>songs.
      ebind (dict_get (obj s) ''albums'') (\<lambda>av.
      ebind (upto_limit av limit) (\<lambda>albums.
      Inr [(''songs'', songs), (''artists'', PList [PDict (obj s)]), (''albums'', albums)])))),
      s)"

definition Album_collect :: "int \<Rightarrow> state \<Rightarrow> (error + pydict) \<times> state" where
  "Album_collect limit s =
     (ebind (dict_get (obj s) ''songs'') (\<lambda>sv.
      ebind (upto_limit sv limit) (\<lambda>songs.
      ebind (dict_get (obj s) ''artist'') (\<lambda>a.
      Inr [(''songs'', songs), (''artists'', PList [a]), (''albums'', PList [PDict (obj s)])]))),
      s)"

definition Song_collect :: "pyval \<Rightarrow> state \<Rightarrow> (error + pydict) \<times> state" where
  "Song_collect limit s =
     (ebind (dict_get (obj s) ''artist'') (\<lambda>a.
      ebind (dict_get (obj s) ''album'') (\<lambda>b.
      Inr [(''songs'', PList [PDict (obj s)]), (''artists'', PList [a]), (''albums'', PList [b])])),
      s)"

subsection \<open>fill\<close>

text \<open>
  \<open>[Song(song) for song in data[k]]\<close> and \<open>[Album(album) for album in data[k]]\<close>, not
  guarded by any \<open>try\<close> here. \<open>Artist.fill\<close> calls \<open>func(self['id'], max_top_tracks=limit)\<close>,
  \<open>Album.fill\<close> calls \<open>func(self['id'])\<close>, \<open>Song.fill\<close> returns at once. Each
  assignment to \<open>self\<close> is a state update of its own, so an exception leaves the
  assignments made before it.
\<close>

definition api_songs :: "pyval \<Rightarrow> string \<Rightarrow> error + pyval" where
  "api_songs data k =
     ebind (getitem data k) (\<lambda>v.
     ebind (iter v) (\<lambda>ss.
     ebind (mapM_err (\<lambda>s. Song s (PBool True) ''api'') ss) (\<lambda>songs.
     Inr (PList (map PDict songs)))))"

definition api_albums :: "pyval \<Rightarrow> string \<Rightarrow> error + pyval" where
  "api_albums data k =
     ebind (getitem data k) (\<lambda>v.
     ebind (iter v) (\<lambda>as.
     ebind (mapM_err (\<lambda>a. Album a (PBool False) ''api'') as) (\<lambda>albums.
     Inr (PList (map PDict albums)))))"

definition Artist_fill ::
  "(pyval \<Rightarrow> pyval \<Rightarrow> error + pyval) \<Rightarrow> pyval \<Rightarrow> state \<Rightarrow> error option \<times> state" where
  "Artist_fill func limit s =
     (case dict_get (obj s) ''full'' of
        Inl e \<Rightarrow> (Some e, s)
      | Inr f \<Rightarrow>
          if truthy f then (None, s)
          else
            (case dict_get (obj s) ''id'' of
               Inl e \<Rightarrow> (Some e, s)
             | Inr ident \<Rightarrow>
                 let s1 = s\<lparr>lookups := lookups s @ [ArtistLookup ident limit]\<rparr> in
                 (case func ident limit of
                    Inl e \<Rightarrow> (Some e, s1)
                  | Inr data \<Rightarrow>
                      (case api_songs data ''topTracks'' of
                         Inl e \<Rightarrow> (Some e, s1)
                       | Inr songs \<Rightarrow>
                           let s2 = s1\<lparr>obj := setitem (obj s1) ''songs'' songs\<rparr> in
                           (case api_albums data ''albums'' of
                              Inl e \<Rightarrow> (Some e, s2)
                            | Inr albums \<Rightarrow>
                                let s3 = s2\<lparr>obj := setitem (obj s2) ''albums'' albums\<rparr> in
                                (None, s3\<lparr>obj := setitem (obj s3) ''full'' (PBool True)\<rparr>))))))"

definition Album_fill ::
  "(pyval \<Rightarrow> error + pyval) \<Rightarrow> pyval \<Rightarrow> state \<Rightarrow> error option \<times> state" where
  "Album_fill func limit s =
     (case dict_get (obj s) ''full'' of
        Inl e \<Rightarrow> (Some e, s)
      | Inr f \<Rightarrow>
          if truthy f then (None, s)
          else
            (case dict_get (obj s) ''id'' of
               Inl e \<Rightarrow> (Some e, s)
             | Inr ident \<Rightarrow>
                 let s1 = s\<lparr>lookups := lookups s @ [AlbumLookup ident]\<rparr> in
                 (case func ident of
                    Inl e \<Rightarrow> (Some e, s1)
                  | Inr data \<Rightarrow>
                      (case api_songs data ''tracks'' of
                         Inl e \<Rightarrow> (Some e, s1)
                       | Inr songs \<Rightarrow>
                           let s2 = s1\<lparr>obj := setitem (obj s1) ''songs'' songs\<rparr> in
                           (None, s2\<lparr>obj := setitem (obj s2) ''full'' (PBool True)\<rparr>)))))"

definition Song_fill :: "'f \<Rightarrow> pyval \<Rightarrow> state \<Rightarrow> error option \<times> state" where
  "Song_fill func limit s = (None, s)"

subsection \<open>play\<close>

text \<open>
  \<open>MusicObject.play\<close> talks to the world: it tests the configuration file, asks for the
  stream URL of each song, reports the song and runs the player. The environment gives the
  answers: \<open>conf_path\<close> is \<open>join(expanduser('~'), '.config', 'pmcli', 'mpv_input.conf')\<close>,
  \<open>isfile\<close> the file test, \<open>get_stream_url\<close> is \<open>consts.mc.get_stream_url\<close>, and
  \<open>exit_code env i\<close> is the exit status of the player run for the \<open>i\<close>-th song. The trace
  records every one of these actions in order. \<open>NowPlaying i n title t\<close> holds the
  arguments of the format \<open>'(%d/%d) %s (%s)'\<close>; the elements of \<open>songs\<close> are songs, so
  \<open>str(song)\<close> is \<open>Song.__str__\<close>.
\<close>

datatype event =
    IsFile string
  | Goodbye string
  | GetStreamUrl pyval
  | NowPlaying nat nat string pyval
  | Call string string

record env =
  conf_path :: string
  isfile :: "string \<Rightarrow> bool"
  get_stream_url :: "pyval \<Rightarrow> error + string"
  exit_code :: "nat \<Rightarrow> int"

text \<open>
  Modelled from the spec: \<open>consts.w.goodbye\<close> is not part of the source file. The
  specification calls it the fatal-termination sink, invoked when the input-configuration
  file is missing: the call does not return, which is the exception \<open>SystemExit\<close> here.
\<close>

definition goodbye :: "string \<Rightarrow> event list \<Rightarrow> (error + 'a) \<times> event list" where
  "goodbye msg tr = (Inl (SystemExit msg), tr @ [Goodbye msg])"

text \<open>The \<open>for\<close> loop: \<open>n\<close> is \<open>len(songs)\<close>, \<open>i\<close> the counter, starting at 1.\<close>

fun play_loop ::
  "env \<Rightarrow> nat \<Rightarrow> nat \<Rightarrow> pydict list \<Rightarrow> event list \<Rightarrow> (error + nat option) \<times> event list" where
  "play_loop env n i [] tr = (Inr None, tr)"
| "play_loop env n i (song # rest) tr =
     (case dict_get song ''id'' of
        Inl e \<Rightarrow> (Inl e, tr)
      | Inr ident \<Rightarrow>
          let tr1 = tr @ [GetStreamUrl ident] in
          (case get_stream_url env ident of
             Inl e \<Rightarrow> (Inl e, tr1)
           | Inr url \<Rightarrow>
               (case Song_str song of
                  Inl e \<Rightarrow> (Inl e, tr1)
                | Inr title \<Rightarrow>
                    (case dict_get song ''time'' of
                       Inl e \<Rightarrow> (Inl e, tr1)
                     | Inr t \<Rightarrow>
                         let tr2 = tr1 @ [NowPlaying i n title t, Call (conf_path env) url] in
                         if exit_code env i = 11
                         then (Inr (if i < n then Some i else None), tr2)
                         else play_loop env n (i + 1) rest tr2))))"

definition MusicObject_play :: "env \<Rightarrow> pydict list \<Rightarrow> (error + nat option) \<times> event list" where
  "MusicObject_play env songs =
     (let tr = [IsFile (conf_path env)] in
      if \<not> isfile env (conf_path env) then goodbye ''No mpv_input.conf found.'' tr
      else play_loop env (length songs) 1 songs tr)"


section \<open>Observations on traces, and sample data\<close>

text \<open>How often each kind of action occurs in a trace of \<open>play\<close>.\<close>

definition file_checks :: "event list \<Rightarrow> nat" where
  "file_checks tr = length (filter (\<lambda>ev. case ev of IsFile p \<Rightarrow> True | _ \<Rightarrow> False) tr)"

definition url_lookups :: "event list \<Rightarrow> nat" where
  "url_lookups tr = length (filter (\<lambda>ev. case ev of GetStreamUrl i \<Rightarrow> True | _ \<Rightarrow> False) tr)"

definition reports :: "event list \<Rightarrow> nat" where
  "reports tr = length (filter (\<lambda>ev. case ev of NowPlaying i n s t \<Rightarrow> True | _ \<Rightarrow> False) tr)"

definition player_runs :: "event list \<Rightarrow> nat" where
  "player_runs tr = length (filter (\<lambda>ev. case ev of Call p u \<Rightarrow> True | _ \<Rightarrow> False) tr)"

definition playable :: "env \<Rightarrow> pydict \<Rightarrow> bool" where
  "playable env song =
     (case dict_get song ''id'' of
        Inl e \<Rightarrow> False
      | Inr ident \<Rightarrow>
          (case get_stream_url env ident of
             Inl e \<Rightarrow> False
           | Inr url \<Rightarrow>
               (case Song_str song of
                  Inl e \<Rightarrow> False
                | Inr title \<Rightarrow> (case dict_get song ''time'' of Inl e \<Rightarrow> False | Inr t \<Rightarrow> True))))"


text \<open>
  \<open>reparses r\<close>: whatever the \<open>'json'\<close> constructors build from the record \<open>r\<close>, they
  build again from the dict of the entity they built.
\<close>

definition reparses :: "pyval \<Rightarrow> bool" where
  "reparses r \<longleftrightarrow>
     (\<forall>full e. (Artist r full ''json'' = Inr e \<longrightarrow> Artist (PDict e) full ''json'' = Inr e) \<and>
               (Album r full ''json'' = Inr e \<longrightarrow> Album (PDict e) full ''json'' = Inr e) \<and>
               (Song r full ''json'' = Inr e \<longrightarrow> Song (PDict e) full ''json'' = Inr e))"


text \<open>
  Sample records. \<open>api_song aid\<close> is a song as the API sends it, with \<open>aid\<close> as its
  \<open>artistId\<close>. The \<open>saved\<close> records are in the persisted shape, with their keys in another
  order than the constructors write them and with stale or missing \<open>kind\<close> and \<open>full\<close>.
  \<open>band\<close>, \<open>disc\<close>, \<open>tune\<close> and \<open>discography\<close> are the entities built from them.
\<close>

definition api_song :: "pyval \<Rightarrow> pyval" where
  "api_song aid = PDict [(''storeId'', PStr ''T1''), (''title'', PStr ''Tune''),
     (''artist'', PStr ''Band''), (''artistId'', aid), (''album'', PStr ''Disc''),
     (''albumId'', PStr ''B1''), (''durationMillis'', PStr ''125000'')]"

definition saved_artist :: pyval where
  "saved_artist = PDict [(''name'', PStr ''Band''), (''id'', PStr ''A1''), (''full'', PBool True),
     (''songs'', PList []), (''albums'', PList [])]"

definition saved_album :: pyval where
  "saved_album = PDict [(''name'', PStr ''Disc''), (''id'', PStr ''B1''), (''artist'', saved_artist),
     (''songs'', PList [])]"

definition saved_song :: pyval where
  "saved_song = PDict [(''name'', PStr ''Tune''), (''id'', PStr ''T1''), (''artist'', saved_artist),
     (''album'', saved_album), (''time'', PStr ''02:05'')]"

definition saved_discography :: pyval where
  "saved_discography = PDict [(''name'', PStr ''Band''), (''id'', PStr ''A1''),
     (''songs'', PList [saved_song]), (''albums'', PList [saved_album])]"

definition band :: pydict where
  "band = [(''id'', PStr ''A1''), (''name'', PStr ''Band''), (''kind'', PStr ''artist''),
     (''full'', PBool False), (''songs'', PList []), (''albums'', PList [])]"

definition disc :: pydict where
  "disc = [(''id'', PStr ''B1''), (''name'', PStr ''Disc''), (''kind'', PStr ''album''),
     (''full'', PBool False), (''artist'', PDict band), (''songs'', PList [])]"

definition tune :: pydict where
  "tune = [(''id'', PStr ''T1''), (''name'', PStr ''Tune''), (''kind'', PStr ''song''),
     (''full'', PBool True), (''artist'', PDict band), (''album'', PDict disc),
     (''time'', PStr ''02:05'')]"

definition discography :: pydict where
  "discography = [(''id'', PStr ''A1''), (''name'', PStr ''Band''), (''kind'', PStr ''artist''),
     (''full'', PBool True), (''songs'', PList [PDict tune]), (''albums'', PList [PDict disc])]"

text \<open>A lookup that answers with one top track and no album, and one that is offline.\<close>

definition one_track :: pyval where
  "one_track = PDict [(''topTracks'', PList [api_song (PList [PStr ''A1''])]), (''albums'', PList []),
     (''tracks'', PList [api_song (PList [PStr ''A1''])])]"

definition offline :: error where
  "offline = LookupFailure ''offline''"

text \<open>
  A player whose \<open>q\<close>-th run ends with the quit status 11 and every other run with 0; the
  configuration file is there when \<open>present\<close> holds. \<open>queue3\<close> is a queue of three songs.
\<close>

definition player :: "bool \<Rightarrow> nat \<Rightarrow> env" where
  "player present q =
     \<lparr>conf_path = ''/home/u/.config/pmcli/mpv_input.conf'', isfile = (\<lambda>p. present),
      get_stream_url = (\<lambda>i. Inr ''http://stream''),
      exit_code = (\<lambda>i. if i = q then 11 else 0)\<rparr>"

definition queue3 :: "pydict list" where
  "queue3 = [tune, tune, tune]"

text \<open>Two artists with the same id and different names, as the constructor builds them.\<close>

definition band_as :: "string \<Rightarrow> pydict" where
  "band_as n = [(''id'', PStr ''A1''), (''name'', PStr n), (''kind'', PStr ''artist''),
     (''full'', PBool False), (''songs'', PList []), (''albums'', PList [])]"

section \<open>Auxiliary facts\<close>

lemmas counts = file_checks_def url_lookups_def reports_def player_runs_def

lemma dict_get_setitem:
  "dict_get (setitem d k v) k' = (if k' = k then Inr v else dict_get d k')"
  by (simp add: dict_get_def setitem_def update_conv')

lemma ebind_Inr_iff: "(ebind m f = Inr y) = (\<exists>x. m = Inr x \<and> f x = Inr y)"
  by (cases m) (simp_all add: ebind_def)

lemma ebind_Inr [simp]: "ebind (Inr x) f = f x"
  by (simp add: ebind_def)

lemma getitem_PDict: "getitem (PDict d) k = dict_get d k"
  by (simp add: getitem_def)

lemma iter_PList: "iter (PList xs) = Inr xs"
  by (simp add: iter_def)

lemma mapM_err_reparse:
  "mapM_err f xs = Inr ys \<Longrightarrow>
   (\<And>x y. x \<in> set xs \<Longrightarrow> f x = Inr y \<Longrightarrow> g (PDict y) = Inr y) \<Longrightarrow>
   mapM_err g (map PDict ys) = Inr ys"
proof (induction xs arbitrary: ys)
  case Nil
  then show ?case by simp
next
  case (Cons x xs)
  from Cons.prems(1) obtain y ys' where
    y: "f x = Inr y" "mapM_err f xs = Inr ys'" "ys = y # ys'"
    by (auto split: sum.splits)
  have "g (PDict y) = Inr y" using Cons.prems(2) [of x y] y(1) by simp
  moreover have "mapM_err g (map PDict ys') = Inr ys'"
    by (rule Cons.IH [OF y(2)]) (rule Cons.prems(2), simp_all)
  ultimately show ?case using y(3) by simp
qed

lemma Artist_reparse:
  assumes IH: "\<And>r'. vsz r' < vsz r \<Longrightarrow> reparses r'"
    and a: "Artist r full ''json'' = Inr e"
  shows "Artist (PDict e) full ''json'' = Inr e"
proof -
  from a obtain ident name tracks ss songs albs as albums where f:
    "getitem r ''id'' = Inr ident" "getitem r ''name'' = Inr name"
    "getitem r ''songs'' = Inr tracks" "iter tracks = Inr ss"
    "mapM_err (\<lambda>s. Song s (PBool True) ''json'') ss = Inr songs"
    "getitem r ''albums'' = Inr albs" "iter albs = Inr as"
    "mapM_err (\<lambda>a. Album a (PBool False) ''json'') as = Inr albums"
    and e: "e = [(''id'', ident), (''name'', name), (''kind'', PStr ''artist''), (''full'', full),
                 (''songs'', PList (map PDict songs)), (''albums'', PList (map PDict albums))]"
    by (auto simp: Artist.simps [of r full "''json''"] ebind_Inr_iff Let_def
        MusicObject_init_def setitem_def)
  have s: "mapM_err (\<lambda>s. Song s (PBool True) ''json'') (map PDict songs) = Inr songs"
  proof (rule mapM_err_reparse [OF f(5)])
    fix x y assume "x \<in> set ss" "Song x (PBool True) ''json'' = Inr y"
    moreover from this f(3,4) have "vsz x < vsz r" by (auto intro: getitem_iter_vsz)
    ultimately show "Song (PDict y) (PBool True) ''json'' = Inr y"
      using IH [of x] by (simp add: reparses_def)
  qed
  have b: "mapM_err (\<lambda>a. Album a (PBool False) ''json'') (map PDict albums) = Inr albums"
  proof (rule mapM_err_reparse [OF f(8)])
    fix x y assume "x \<in> set as" "Album x (PBool False) ''json'' = Inr y"
    moreover from this f(6,7) have "vsz x < vsz r" by (auto intro: getitem_iter_vsz)
    ultimately show "Album (PDict y) (PBool False) ''json'' = Inr y"
      using IH [of x] by (simp add: reparses_def)
  qed
  show ?thesis
    unfolding e
    by (simp add: Artist_PDict getitem_PDict dict_get_def iter_PList s b Let_def
        MusicObject_init_def setitem_def)
qed

lemma Album_reparse:
  assumes IH: "\<And>r'. vsz r' < vsz r \<Longrightarrow> reparses r'"
    and a: "Album r full ''json'' = Inr e"
  shows "Album (PDict e) full ''json'' = Inr e"
proof -
  from a obtain ident name art a' tracks ss songs where f:
    "getitem r ''id'' = Inr ident" "getitem r ''name'' = Inr name"
    "getitem r ''artist'' = Inr art" "Artist art (PBool False) ''json'' = Inr a'"
    "getitem r ''songs'' = Inr tracks" "iter tracks = Inr ss"
    "mapM_err (\<lambda>s. Song s (PBool True) ''json'') ss = Inr songs"
    and e: "e = [(''id'', ident), (''name'', name), (''kind'', PStr ''album''), (''full'', full),
                 (''artist'', PDict a'), (''songs'', PList (map PDict songs))]"
    by (auto simp: Album.simps [of r full "''json''"] ebind_Inr_iff Let_def
        MusicObject_init_def setitem_def)
  have "vsz art < vsz r" using f(3) by (rule getitem_vsz)
  then have ar: "Artist (PDict a') (PBool False) ''json'' = Inr a'"
    using IH [of art] f(4) by (simp add: reparses_def)
  have s: "mapM_err (\<lambda>s. Song s (PBool True) ''json'') (map PDict songs) = Inr songs"
  proof (rule mapM_err_reparse [OF f(7)])
    fix x y assume "x \<in> set ss" "Song x (PBool True) ''json'' = Inr y"
    moreover from this f(5,6) have "vsz x < vsz r" by (auto intro: getitem_iter_vsz)
    ultimately show "Song (PDict y) (PBool True) ''json'' = Inr y"
      using IH [of x] by (simp add: reparses_def)
  qed
  show ?thesis
    unfolding e
    by (simp add: Album_PDict getitem_PDict dict_get_def iter_PList s ar Let_def
        MusicObject_init_def setitem_def)
qed

lemma Song_reparse:
  assumes IH: "\<And>r'. vsz r' < vsz r \<Longrightarrow> reparses r'"
    and a: "Song r full ''json'' = Inr e"
  shows "Song (PDict e) full ''json'' = Inr e"
proof -
  from a obtain ident name art a' alb b' t where f:
    "getitem r ''id'' = Inr ident" "getitem r ''name'' = Inr name"
    "getitem r ''artist'' = Inr art" "Artist art (PBool False) ''json'' = Inr a'"
    "getitem r ''album'' = Inr alb" "Album alb (PBool False) ''json'' = Inr b'"
    "getitem r ''time'' = Inr t"
    and e: "e = [(''id'', ident), (''name'', name), (''kind'', PStr ''song''), (''full'', full),
                 (''artist'', PDict a'), (''album'', PDict b'), (''time'', t)]"
    by (auto simp: Song.simps [of r full "''json''"] ebind_Inr_iff Let_def
        MusicObject_init_def setitem_def)
  have "vsz art < vsz r" using f(3) by (rule getitem_vsz)
  then have ar: "Artist (PDict a') (PBool False) ''json'' = Inr a'"
    using IH [of art] f(4) by (simp add: reparses_def)
  have "vsz alb < vsz r" using f(5) by (rule getitem_vsz)
  then have al: "Album (PDict b') (PBool False) ''json'' = Inr b'"
    using IH [of alb] f(6) by (simp add: reparses_def)
  show ?thesis
    unfolding e
    by (simp add: Song_PDict getitem_PDict dict_get_def ar al Let_def
        MusicObject_init_def setitem_def)
qed

lemma reparses_all: "reparses r"
proof (induction r rule: measure_induct_rule [of vsz])
  case (less r)
  show ?case
    unfolding reparses_def
    using Artist_reparse [of r] Album_reparse [of r] Song_reparse [of r] less.IH
    by blast
qed

lemma play_loop_quit:
  "\<forall>s \<in> set pre. playable env s \<Longrightarrow> playable env song \<Longrightarrow>
   \<forall>j < length pre. exit_code env (i + j) \<noteq> 11 \<Longrightarrow>
   exit_code env (i + length pre) = 11 \<Longrightarrow>
   \<exists>tr'. play_loop env n i (pre @ song # rest) tr =
            (Inr (if i + length pre < n then Some (i + length pre) else None), tr @ tr') \<and>
         url_lookups tr' = Suc (length pre) \<and> reports tr' = Suc (length pre) \<and>
         player_runs tr' = Suc (length pre) \<and> file_checks tr' = 0"
proof (induction pre arbitrary: i tr)
  case Nil
  then show ?case
    by (auto simp: playable_def Let_def counts split: sum.splits)
next
  case (Cons p pre)
  have p: "playable env p" using Cons.prems(1) by simp
  have nq: "exit_code env i \<noteq> 11" using Cons.prems(3) by auto
  have rest: "\<forall>j < length pre. exit_code env (Suc i + j) \<noteq> 11"
    using Cons.prems(3) by auto
  have q: "exit_code env (Suc i + length pre) = 11" using Cons.prems(4) by simp
  from p obtain ident url title t where f:
    "dict_get p ''id'' = Inr ident" "get_stream_url env ident = Inr url"
    "Song_str p = Inr title" "dict_get p ''time'' = Inr t"
    by (auto simp: playable_def split: sum.splits)
  let ?tr2 = "tr @ [GetStreamUrl ident, NowPlaying i n title t, Call (conf_path env) url]"
  from Cons.IH [of "Suc i" ?tr2] Cons.prems(1,2) rest q
  obtain tr' where IH:
    "play_loop env n (Suc i) (pre @ song # rest) ?tr2 =
       (Inr (if Suc i + length pre < n then Some (Suc i + length pre) else None), ?tr2 @ tr')"
    "url_lookups tr' = Suc (length pre)" "reports tr' = Suc (length pre)"
    "player_runs tr' = Suc (length pre)" "file_checks tr' = 0"
    by auto
  show ?case
    apply (rule exI [of _ "[GetStreamUrl ident, NowPlaying i n title t, Call (conf_path env) url] @ tr'"])
    using f nq IH by (simp add: Let_def counts)
qed

lemma play_loop_end:
  "\<forall>s \<in> set songs. playable env s \<Longrightarrow>
   \<forall>j. Suc j < length songs \<longrightarrow> exit_code env (i + j) \<noteq> 11 \<Longrightarrow>
   i + length songs = Suc n \<Longrightarrow>
   fst (play_loop env n i songs tr) = Inr None"
proof (induction songs arbitrary: i tr)
  case Nil
  then show ?case by simp
next
  case (Cons p songs)
  from Cons.prems(1) obtain ident url title t where f:
    "dict_get p ''id'' = Inr ident" "get_stream_url env ident = Inr url"
    "Song_str p = Inr title" "dict_get p ''time'' = Inr t"
    by (auto simp: playable_def split: sum.splits)
  show ?case
  proof (cases "songs = []")
    case True
    then show ?thesis using f Cons.prems(3) by (simp add: Let_def)
  next
    case False
    then have nq: "exit_code env i \<noteq> 11" using Cons.prems(2) [rule_format, of 0] by simp
    have "\<forall>j. Suc j < length songs \<longrightarrow> exit_code env (Suc i + j) \<noteq> 11"
      using Cons.prems(2) [rule_format, of "Suc j" for j] by simp
    then have "fst (play_loop env n (Suc i) songs tr') = Inr None" for tr'
      using Cons.IH [of "Suc i" tr'] Cons.prems(1,3) by simp
    then show ?thesis using f nq by (simp add: Let_def)
  qed
qed

lemma play_loop_trace:
  "\<exists>tr'. snd (play_loop env n i songs tr) = tr @ tr' \<and> file_checks tr' = 0"
proof (induction songs arbitrary: i tr)
  case Nil
  then show ?case by (simp add: counts)
next
  case (Cons p songs)
  show ?case
  proof (cases "playable env p \<and> exit_code env i \<noteq> 11")
    case True
    then obtain ident url title t where f:
      "dict_get p ''id'' = Inr ident" "get_stream_url env ident = Inr url"
      "Song_str p = Inr title" "dict_get p ''time'' = Inr t"
      by (auto simp: playable_def split: sum.splits)
    let ?ev = "[GetStreamUrl ident, NowPlaying i n title t, Call (conf_path env) url]"
    from Cons.IH [of "Suc i" "tr @ ?ev"] obtain tr' where
      "snd (play_loop env n (Suc i) songs (tr @ ?ev)) = (tr @ ?ev) @ tr'" "file_checks tr' = 0"
      by blast
    then show ?thesis using f True
      by (intro exI [of _ "?ev @ tr'"]) (simp add: Let_def counts)
  next
    case False
    then show ?thesis
      by (auto simp: playable_def Let_def counts split: sum.splits)
  qed
qed


text \<open>
  Hashing an entity never gives a hash value; the body of \<open>__hash__\<close> gives the same
  string for the same id.
\<close>

lemma MusicObject_hash_raises: "MusicObject_hash e \<noteq> Inr n"
  by (cases "hash_body e") (simp_all add: MusicObject_hash_def ebind_def)

lemma MusicObject_hash_band: "hash_body band = Inr ''6549''" "MusicObject_hash band = Inl TypeError"
  by (simp_all add: MusicObject_hash_def hash_body_def py_ord_def band_def py_eval)

lemma hash_body_same_id:
  "dict_get e1 ''id'' = dict_get e2 ''id'' \<Longrightarrow> hash_body e1 = hash_body e2"
  by (simp add: hash_body_def)

text \<open>The examples of the specification for \<open>time_from_ms\<close>, and a duration sent as a string.\<close>

lemma time_from_ms_examples:
  "time_from_ms (PInt 125000) = Inr ''02:05''"
  "time_from_ms (PInt 59000) = Inr ''00:59''"
  "time_from_ms (PInt 3600000) = Inr ''60:00''"
  "time_from_ms (PStr ''125000'') = Inr ''02:05''"
  by (simp_all add: py_eval)

text \<open>
  What the constructors build passes \<open>verify\<close> of its kind, for both sources.
\<close>

lemma verify_constructed:
  assumes "source = ''api'' \<or> source = ''json''"
  shows "(Artist r full source = Inr e \<longrightarrow> Artist_verify e) \<and>
         (Album r full source = Inr e \<longrightarrow> Album_verify e) \<and>
         (Song r full source = Inr e \<longrightarrow> Song_verify e)"
proof (intro conjI impI)
  assume "Artist r full source = Inr e"
  then show "Artist_verify e"
    using assms
    by (auto simp: Artist.simps [of r full source] ebind_Inr_iff Let_def MusicObject_init_def
        setitem_def Artist_verify_def)
next
  assume "Album r full source = Inr e"
  then show "Album_verify e"
    using assms
    by (auto simp: Album.simps [of r full source] ebind_Inr_iff Let_def MusicObject_init_def
        setitem_def Album_verify_def)
next
  show "Song_verify e" by (simp add: Song_verify_def)
qed

lemmas samples = api_song_def saved_artist_def saved_album_def saved_song_def
  saved_discography_def band_def disc_def tune_def discography_def one_track_def
  player_def queue3_def band_as_def

lemmas constructors = Artist_PDict Album_PDict Song_PDict

section \<open>Properties\<close>

subsection \<open>Playback\<close>

text \<open>
  C1. Playing a list of songs with the configuration file present. When the quit status
  is first seen on song \<open>q\<close> (counted from 1), \<open>q\<close> is less than the length of the list
  and the songs up to \<open>q\<close> can be played (their fields are there and their stream URL is
  found), \<open>play\<close> returns \<open>q\<close> and stops at once: exactly \<open>q\<close> URL lookups, \<open>q\<close>
  reports and \<open>q\<close> runs of the player have happened. When no song before the last one
  ends with the quit status, whether the last one does or not, \<open>play\<close> returns \<open>None\<close>.
\<close>

theorem play_resume_point:
  "(isfile env (conf_path env) \<and> 1 \<le> q \<and> q < length songs \<and>
    (\<forall>s \<in> set (take q songs). playable env s) \<and>
    exit_code env q = 11 \<and> (\<forall>j. 1 \<le> j \<and> j < q \<longrightarrow> exit_code env j \<noteq> 11) \<longrightarrow>
      fst (MusicObject_play env songs) = Inr (Some q) \<and>
      url_lookups (snd (MusicObject_play env songs)) = q \<and>
      reports (snd (MusicObject_play env songs)) = q \<and>
      player_runs (snd (MusicObject_play env songs)) = q) \<and>
   (isfile env (conf_path env) \<and> (\<forall>s \<in> set songs. playable env s) \<and>
    (\<forall>j. 1 \<le> j \<and> j < length songs \<longrightarrow> exit_code env j \<noteq> 11) \<longrightarrow>
      fst (MusicObject_play env songs) = Inr None)"
proof (intro conjI impI; elim conjE)
  assume a: "isfile env (conf_path env)" "1 \<le> q" "q < length songs"
    "\<forall>s \<in> set (take q songs). playable env s" "exit_code env q = 11"
    "\<forall>j. 1 \<le> j \<and> j < q \<longrightarrow> exit_code env j \<noteq> 11"
  define pre where "pre = take (q - 1) songs"
  define song where "song = songs ! (q - 1)"
  define rest where "rest = drop q songs"
  have split: "songs = pre @ song # rest"
    using a(2,3) unfolding pre_def song_def rest_def
    by (metis Suc_diff_1 id_take_nth_drop less_imp_diff_less less_le_trans zero_less_one)
  have len: "length pre = q - 1" using a(3) by (simp add: pre_def)
  have tk: "take q songs = pre @ [song]"
    using a(2,3) unfolding pre_def song_def
    by (metis Suc_diff_1 less_imp_diff_less less_le_trans take_Suc_conv_app_nth zero_less_one)
  have p1: "\<forall>s \<in> set pre. playable env s" and p2: "playable env song"
    using a(4) tk by auto
  have nq: "\<forall>j < length pre. exit_code env (1 + j) \<noteq> 11"
    using a(6) len by auto
  have qq: "exit_code env (1 + length pre) = 11" using a(2,5) len by simp
  from play_loop_quit [OF p1 p2 nq qq, of "length songs" rest "[IsFile (conf_path env)]"]
  obtain tr' where r:
    "play_loop env (length songs) 1 (pre @ song # rest) [IsFile (conf_path env)] =
      (Inr (if 1 + length pre < length songs then Some (1 + length pre) else None),
       [IsFile (conf_path env)] @ tr')"
    "url_lookups tr' = Suc (length pre)" "reports tr' = Suc (length pre)"
    "player_runs tr' = Suc (length pre)"
    by blast
  have run: "MusicObject_play env songs = (Inr (Some q), [IsFile (conf_path env)] @ tr')"
    using a(1,2,3) r(1) len split by (simp add: MusicObject_play_def Let_def)
  show "fst (MusicObject_play env songs) = Inr (Some q)" using run by simp
  show "url_lookups (snd (MusicObject_play env songs)) = q"
    using run r(2) len a(2) by (simp add: counts)
  show "reports (snd (MusicObject_play env songs)) = q"
    using run r(3) len a(2) by (simp add: counts)
  show "player_runs (snd (MusicObject_play env songs)) = q"
    using run r(4) len a(2) by (simp add: counts)
next
  assume a: "isfile env (conf_path env)" "\<forall>s \<in> set songs. playable env s"
    "\<forall>j. 1 \<le> j \<and> j < length songs \<longrightarrow> exit_code env j \<noteq> 11"
  have "\<forall>j. Suc j < length songs \<longrightarrow> exit_code env (1 + j) \<noteq> 11"
    using a(3) by auto
  from play_loop_end [OF a(2) this, of "length songs" "[IsFile (conf_path env)]"]
  show "fst (MusicObject_play env songs) = Inr None"
    using a(1) by (simp add: MusicObject_play_def Let_def)
qed

theorem play_resume_point_witness:
  "fst (MusicObject_play (player True 2) queue3) = Inr (Some 2) \<and>
   player_runs (snd (MusicObject_play (player True 2) queue3)) = 2 \<and>
   fst (MusicObject_play (player True 3) queue3) = Inr None \<and>
   fst (MusicObject_play (player True 0) queue3) = Inr None"
proof -
  have p: "playable (player True q) tune" for q
    by (simp add: playable_def samples Song_str_def join2_def py_eval)
  have "fst (MusicObject_play (player True 2) queue3) = Inr (Some 2) \<and>
        player_runs (snd (MusicObject_play (player True 2) queue3)) = 2"
    using play_resume_point [of "player True 2" 2 queue3] p [of 2]
    by (simp add: queue3_def player_def)
  moreover have "fst (MusicObject_play (player True 3) queue3) = Inr None"
    using play_resume_point [of "player True 3" 0 queue3] p [of 3]
    by (simp add: queue3_def player_def)
  moreover have "fst (MusicObject_play (player True 0) queue3) = Inr None"
    using play_resume_point [of "player True 0" 0 queue3] p [of 0]
    by (simp add: queue3_def player_def)
  ultimately show ?thesis by simp
qed

text \<open>
  C9. When the configuration file is missing, \<open>play\<close> ends in \<open>goodbye\<close> and nothing but
  the file test and that call has happened: no URL lookup, no report, no run of the player.
  In every run the trace starts with the file test and holds exactly one.
\<close>

theorem play_missing_conf:
  "(\<not> isfile env (conf_path env) \<longrightarrow>
      MusicObject_play env songs =
        (Inl (SystemExit ''No mpv_input.conf found.''),
         [IsFile (conf_path env), Goodbye ''No mpv_input.conf found.''])) \<and>
   hd (snd (MusicObject_play env songs)) = IsFile (conf_path env) \<and>
   file_checks (snd (MusicObject_play env songs)) = 1"
proof -
  obtain tr' where
    "snd (play_loop env (length songs) 1 songs [IsFile (conf_path env)]) =
       [IsFile (conf_path env)] @ tr'" "file_checks tr' = 0"
    using play_loop_trace by blast
  then show ?thesis
    by (simp add: MusicObject_play_def goodbye_def Let_def counts)
qed

theorem play_missing_conf_witness:
  "MusicObject_play (player False 0) queue3 =
     (Inl (SystemExit ''No mpv_input.conf found.''),
      [IsFile ''/home/u/.config/pmcli/mpv_input.conf'', Goodbye ''No mpv_input.conf found.''])"
  using play_missing_conf [of "player False 0" queue3] by (simp add: player_def)

subsection \<open>Construction\<close>

text \<open>
  C2. Serialising an entity writes the items of its dict, and reading them back gives a
  dict with the same items: the record that is reparsed is \<open>PDict e\<close> for the entity
  \<open>e\<close>. An entity built by a \<open>'json'\<close> constructor from a persisted record is built
  again, identically, from that dict by the same constructor called with the same
  \<open>full\<close> argument (the constructors take the flag from their argument and not from the
  record; with the defaults on both sides the arguments agree). This holds for artists,
  albums and songs: the result is the same dict, so \<open>id\<close>, \<open>name\<close>, \<open>kind\<close>, \<open>full\<close>
  and every nested artist, album and song are the same.
\<close>

theorem json_round_trip:
  "(Artist r full ''json'' = Inr e \<longrightarrow> Artist (PDict e) full ''json'' = Inr e) \<and>
   (Album r full ''json'' = Inr e \<longrightarrow> Album (PDict e) full ''json'' = Inr e) \<and>
   (Song r full ''json'' = Inr e \<longrightarrow> Song (PDict e) full ''json'' = Inr e)"
  using reparses_all [of r] by (simp add: reparses_def)

theorem json_round_trip_witness:
  "Artist saved_discography (PBool True) ''json'' = Inr discography \<and>
   Artist (PDict discography) (PBool True) ''json'' = Inr discography \<and>
   Album saved_album (PBool False) ''json'' = Inr disc \<and>
   Album (PDict disc) (PBool False) ''json'' = Inr disc \<and>
   Song saved_song (PBool True) ''json'' = Inr tune \<and>
   Song (PDict tune) (PBool True) ''json'' = Inr tune"
proof -
  have a: "Artist saved_discography (PBool True) ''json'' = Inr discography"
    by (simp add: samples constructors py_eval)
  have b: "Album saved_album (PBool False) ''json'' = Inr disc"
    by (simp add: samples constructors py_eval)
  have c: "Song saved_song (PBool True) ''json'' = Inr tune"
    by (simp add: samples constructors py_eval)
  show ?thesis
    using a b c json_round_trip [of saved_discography "PBool True" discography]
      json_round_trip [of saved_album "PBool False" disc]
      json_round_trip [of saved_song "PBool True" tune]
    by simp
qed

text \<open>
  C5. A song record of the API whose \<open>artistId\<close> is a list gives a song whose nested
  artist, and whose nested album's artist, carry the first element. With a single string
  the first character of the string becomes the id, and with a single integer the
  construction of the nested album raises \<open>TypeError\<close>: \<open>Song.__init__\<close> catches the
  \<open>TypeError\<close> of \<open>song['artistId'][0]\<close> for the nested artist only, and a string can be
  indexed.
\<close>

theorem Song_artistId_forms:
  "ebind (Song (api_song (PList [PStr ''A1''])) (PBool True) ''api'')
     (\<lambda>s. ebind (dict_get s ''artist'') (\<lambda>a. getitem a ''id'')) = Inr (PStr ''A1'') \<and>
   ebind (Song (api_song (PStr ''A1'')) (PBool True) ''api'')
     (\<lambda>s. ebind (dict_get s ''artist'') (\<lambda>a. getitem a ''id'')) = Inr (PStr ''A'') \<and>
   ebind (Song (api_song (PStr ''A1'')) (PBool True) ''api'')
     (\<lambda>s. ebind (dict_get s ''album'') (\<lambda>b. ebind (getitem b ''artist'') (\<lambda>a. getitem a ''id'')))
     = Inr (PStr ''A'') \<and>
   Song (api_song (PInt 7)) (PBool True) ''api'' = Inl TypeError"
  by (simp add: samples constructors py_eval)

text \<open>
  C6. An artist record of the API whose \<open>topTracks\<close> holds a song without \<open>storeId\<close>,
  and an album record whose \<open>tracks\<close> holds one, are built without any error and with an
  empty song list: the \<open>except KeyError\<close> that stands for a missing collection also
  takes the \<open>KeyError\<close> of the song. The same comprehension in \<open>fill\<close>, outside a
  \<open>try\<close>, raises it.
\<close>

theorem Artist_swallows_malformed_song:
  "Artist (PDict [(''artistId'', PStr ''A1''), (''name'', PStr ''Band''),
                  (''topTracks'', PList [PDict [(''title'', PStr ''Tune'')]])])
     (PBool False) ''api'' = Inr band \<and>
   Album (PDict [(''albumId'', PStr ''B1''), (''name'', PStr ''Disc''),
                 (''artistId'', PList [PStr ''A1'']), (''artist'', PStr ''Band''),
                 (''tracks'', PList [PDict [(''title'', PStr ''Tune'')]])])
     (PBool False) ''api'' = Inr disc \<and>
   api_songs (PDict [(''topTracks'', PList [PDict [(''title'', PStr ''Tune'')]])]) ''topTracks''
     = Inl (KeyError ''storeId'')"
  by (simp add: samples constructors api_songs_def py_eval)

subsection \<open>verify\<close>

text \<open>
  C3. \<open>Song.verify\<close> returns true for every item, also for the empty dict, which has none
  of the keys of a song; \<open>Artist.verify\<close> and \<open>Album.verify\<close> reject the empty dict.
  (That every constructed entity passes \<open>verify\<close> is \<open>verify_constructed\<close> above.)
\<close>

theorem Song_verify_accepts_all:
  "Song_verify item \<and> Song_verify [] \<and> \<not> Artist_verify [] \<and> \<not> Album_verify []"
  by (simp add: Song_verify_def Artist_verify_def Album_verify_def)

subsection \<open>Equality and hash\<close>

text \<open>
  C4, as the claim states it, fails: two artists built from records with the same
  \<open>artistId\<close> and different names have the same id and are not equal.
\<close>

theorem same_id_not_equal:
  "Artist (PDict [(''artistId'', PStr ''A1''), (''name'', PStr ''Band'')]) (PBool False) ''api''
     = Inr (band_as ''Band'') \<and>
   Artist (PDict [(''artistId'', PStr ''A1''), (''name'', PStr ''Bandits'')]) (PBool False) ''api''
     = Inr (band_as ''Bandits'') \<and>
   dict_get (band_as ''Band'') ''id'' = dict_get (band_as ''Bandits'') ''id'' \<and>
   \<not> py_eq (PDict (band_as ''Band'')) (PDict (band_as ''Bandits''))"
  by (simp add: samples constructors py_eval)

text \<open>
  C4, amended. Entities are equal as dicts are, not by id alone. Two equal entities agree
  on every field both hold, so they have the same id string; two entities that hold a
  field with unequal values, a name say, are not equal, whatever their ids. For an entity
  whose keys are distinct, as the constructors build it, being equal to another is having
  as many items and finding every field in the other with an equal value.
\<close>

theorem equal_entities_agree:
  "(py_eq (PDict e1) (PDict e2) \<and> dict_get e1 k = Inr v1 \<and> dict_get e2 k = Inr v2 \<longrightarrow>
      py_eq v1 v2) \<and>
   (py_eq (PDict e1) (PDict e2) \<and> dict_get e1 ''id'' = Inr (PStr i1) \<and>
    dict_get e2 ''id'' = Inr (PStr i2) \<longrightarrow> i1 = i2) \<and>
   (dict_get e1 k = Inr v1 \<and> dict_get e2 k = Inr v2 \<and> \<not> py_eq v1 v2 \<longrightarrow>
      \<not> py_eq (PDict e1) (PDict e2)) \<and>
   (distinct (map fst e1) \<longrightarrow>
      py_eq (PDict e1) (PDict e2) =
        (length e1 = length e2 \<and>
         (\<forall>k' v. dict_get e1 k' = Inr v \<longrightarrow> (\<exists>w. dict_get e2 k' = Inr w \<and> py_eq v w))))"
proof -
  have field: "py_eq v w"
    if eq: "py_eq (PDict e1) (PDict e2)" and a: "dict_get e1 x = Inr v"
      and b: "dict_get e2 x = Inr w" for x v w
  proof -
    from a have "(x, v) \<in> set e1"
      by (auto simp: dict_get_def split: option.splits dest: map_of_SomeD)
    moreover from b have "map_of e2 x = Some w"
      by (auto simp: dict_get_def split: option.splits)
    ultimately show ?thesis
      using eq by (auto split: option.splits)
  qed
  have ids: "i1 = i2"
    if "py_eq (PDict e1) (PDict e2)" "dict_get e1 ''id'' = Inr (PStr i1)"
      "dict_get e2 ''id'' = Inr (PStr i2)"
    using field [OF that] by simp
  have items: "py_eq (PDict e1) (PDict e2) =
      (length e1 = length e2 \<and>
       (\<forall>k' v. dict_get e1 k' = Inr v \<longrightarrow> (\<exists>w. dict_get e2 k' = Inr w \<and> py_eq v w)))"
    if d: "distinct (map fst e1)"
  proof -
    have m: "(dict_get e1 k' = Inr v) = ((k', v) \<in> set e1)" for k' v
      using map_of_eq_Some_iff [OF d, of k' v]
      by (auto simp: dict_get_def split: option.splits)
    have g: "(\<exists>w. dict_get e2 k' = Inr w \<and> py_eq v w) =
        (case map_of e2 k' of None \<Rightarrow> False | Some w \<Rightarrow> py_eq v w)" for k' v
      by (auto simp: dict_get_def split: option.splits)
    have "(\<forall>kv \<in> set e1. case map_of e2 (fst kv) of None \<Rightarrow> False | Some w \<Rightarrow> py_eq (snd kv) w) =
        (\<forall>k' v. (k', v) \<in> set e1 \<longrightarrow>
           (case map_of e2 k' of None \<Rightarrow> False | Some w \<Rightarrow> py_eq v w))"
      by (metis fst_conv snd_conv surj_pair)
    then show ?thesis
      by (simp add: m g)
  qed
  show ?thesis using field ids items by blast
qed

theorem equal_entities_agree_witness:
  "py_eq (PDict band) (PDict (band_as ''Band'')) \<and>
   dict_get band ''id'' = Inr (PStr ''A1'') \<and>
   dict_get (band_as ''Band'') ''id'' = Inr (PStr ''A1'') \<and>
   dict_get (band_as ''Band'') ''name'' = Inr (PStr ''Band'') \<and>
   dict_get (band_as ''Bandits'') ''name'' = Inr (PStr ''Bandits'') \<and>
   \<not> py_eq (PStr ''Band'') (PStr ''Bandits'') \<and>
   \<not> py_eq (PDict (band_as ''Band'')) (PDict (band_as ''Bandits'')) \<and>
   distinct (map fst band)"
proof -
  have eq: "py_eq (PDict band) (PDict (band_as ''Band''))"
    by (simp add: samples)
  have ids: "dict_get band ''id'' = Inr (PStr ''A1'')"
    "dict_get (band_as ''Band'') ''id'' = Inr (PStr ''A1'')"
    by (simp_all add: samples dict_get_def)
  have names: "dict_get (band_as ''Band'') ''name'' = Inr (PStr ''Band'')"
    "dict_get (band_as ''Bandits'') ''name'' = Inr (PStr ''Bandits'')"
    by (simp_all add: samples dict_get_def)
  have d: "distinct (map fst band)"
    by (simp add: samples)
  have "\<not> py_eq (PDict (band_as ''Band'')) (PDict (band_as ''Bandits''))"
    using equal_entities_agree [of "band_as ''Band''" "band_as ''Bandits''" "''name''"
        "PStr ''Band''" "PStr ''Bandits''"] names
    by simp
  moreover have "''A1'' = ''A1''"
    using equal_entities_agree [of band "band_as ''Band''" "''id''" "PStr ''A1''" "PStr ''A1''"
        "''A1''" "''A1''"] eq ids d
    by simp
  ultimately show ?thesis using eq ids names d by simp
qed

subsection \<open>fill and collect\<close>

text \<open>
  C7. On an entity whose \<open>full\<close> flag is true, \<open>fill\<close> of an artist and of an album
  returns without an error and leaves the state as it was, whatever the lookup and the
  limit: the entity is the same and no lookup was made. \<open>fill\<close> of a song does so
  always. Hence a second \<open>fill\<close> gives what the first gave.
\<close>

theorem fill_full_noop:
  "(dict_get (obj s) ''full'' = Inr f \<and> truthy f \<longrightarrow>
      Artist_fill func limit s = (None, s) \<and>
      Album_fill func' limit s = (None, s) \<and>
      Artist_fill func limit (snd (Artist_fill func limit s)) = Artist_fill func limit s \<and>
      Album_fill func' limit (snd (Album_fill func' limit s)) = Album_fill func' limit s \<and>
      lookups (snd (Artist_fill func limit s)) = lookups s \<and>
      lookups (snd (Album_fill func' limit s)) = lookups s) \<and>
   Song_fill func'' limit s = (None, s) \<and>
   Song_fill func'' limit (snd (Song_fill func'' limit s)) = Song_fill func'' limit s"
  by (simp add: Artist_fill_def Album_fill_def Song_fill_def)

theorem fill_full_noop_witness:
  "dict_get discography ''full'' = Inr (PBool True) \<and> truthy (PBool True) \<and>
   Artist_fill (\<lambda>i l. Inl offline) (PInt 100) \<lparr>obj = discography, lookups = []\<rparr>
     = (None, \<lparr>obj = discography, lookups = []\<rparr>) \<and>
   Album_fill (\<lambda>i. Inl offline) (PInt 100) \<lparr>obj = discography, lookups = []\<rparr>
     = (None, \<lparr>obj = discography, lookups = []\<rparr>)"
  using fill_full_noop [of "\<lparr>obj = discography, lookups = []\<rparr>" "PBool True"
      "\<lambda>i l. Inl offline" "PInt 100" "\<lambda>i. Inl offline" "()"]
  by (simp add: discography_def dict_get_def truthy_def)

text \<open>
  C10. A \<open>fill\<close> of an artist that ends without an error leaves every key other than
  \<open>songs\<close>, \<open>albums\<close> and \<open>full\<close> as it was, so \<open>id\<close>, \<open>name\<close> and \<open>kind\<close>; a \<open>fill\<close>
  of an album leaves every key other than \<open>songs\<close> and \<open>full\<close>, so these three and the
  nested \<open>artist\<close>.
\<close>

theorem fill_frame:
  "(Artist_fill func limit s = (None, s') \<and> k \<notin> {''songs'', ''albums'', ''full''} \<longrightarrow>
      dict_get (obj s') k = dict_get (obj s) k) \<and>
   (Album_fill func' limit s = (None, s') \<and> k \<notin> {''songs'', ''full''} \<longrightarrow>
      dict_get (obj s') k = dict_get (obj s) k)"
  by (auto simp: Artist_fill_def Album_fill_def Let_def dict_get_setitem
      split: sum.splits if_splits)

theorem fill_frame_witness:
  "fst (Artist_fill (\<lambda>i l. Inr one_track) (PInt 100) \<lparr>obj = band, lookups = []\<rparr>) = None \<and>
   dict_get (obj (snd (Artist_fill (\<lambda>i l. Inr one_track) (PInt 100) \<lparr>obj = band, lookups = []\<rparr>)))
     ''name'' = Inr (PStr ''Band'') \<and>
   dict_get (obj (snd (Artist_fill (\<lambda>i l. Inr one_track) (PInt 100) \<lparr>obj = band, lookups = []\<rparr>)))
     ''songs'' = Inr (PList [PDict tune]) \<and>
   fst (Album_fill (\<lambda>i. Inr one_track) (PInt 100) \<lparr>obj = disc, lookups = []\<rparr>) = None \<and>
   dict_get (obj (snd (Album_fill (\<lambda>i. Inr one_track) (PInt 100) \<lparr>obj = disc, lookups = []\<rparr>)))
     ''artist'' = Inr (PDict band)"
proof -
  let ?a = "Artist_fill (\<lambda>i l. Inr one_track) (PInt 100) \<lparr>obj = band, lookups = []\<rparr>"
  let ?b = "Album_fill (\<lambda>i. Inr one_track) (PInt 100) \<lparr>obj = disc, lookups = []\<rparr>"
  have a: "?a = (None, \<lparr>obj = [(''id'', PStr ''A1''), (''name'', PStr ''Band''),
      (''kind'', PStr ''artist''), (''full'', PBool True), (''songs'', PList [PDict tune]),
      (''albums'', PList [])], lookups = [ArtistLookup (PStr ''A1'') (PInt 100)]\<rparr>)"
    by (simp add: Artist_fill_def api_songs_def api_albums_def truthy_def samples constructors py_eval)
  have b: "?b = (None, \<lparr>obj = [(''id'', PStr ''B1''), (''name'', PStr ''Disc''),
      (''kind'', PStr ''album''), (''full'', PBool True), (''artist'', PDict band),
      (''songs'', PList [PDict tune])], lookups = [AlbumLookup (PStr ''B1'')]\<rparr>)"
    by (simp add: Album_fill_def api_songs_def truthy_def samples constructors py_eval)
  have "dict_get (obj (snd ?a)) ''name'' = dict_get band ''name''"
    using fill_frame [of "\<lambda>i l. Inr one_track" "PInt 100" "\<lparr>obj = band, lookups = []\<rparr>"
        "snd ?a" "''name''"] a
    by simp
  moreover have "dict_get (obj (snd ?b)) ''artist'' = dict_get disc ''artist''"
    using fill_frame [of _ "PInt 100" "\<lparr>obj = disc, lookups = []\<rparr>" "snd ?b" "''artist''"
        "\<lambda>i. Inr one_track"] b
    by simp
  ultimately show ?thesis
    using a b by (simp add: samples dict_get_def)
qed

text \<open>
  C8. With a limit that is not negative, \<open>collect\<close> of an artist gives the first
  \<open>limit\<close> songs, the artist itself and the first \<open>limit\<close> albums; of an album the first
  \<open>limit\<close> songs, its artist and the album itself; of a song, whatever the limit, the song,
  its artist and its album. The lists are as long as the smaller of their source and the
  limit. The state is returned as it was: the entity is unchanged and no lookup was
  made, \<open>collect\<close> having no lookup to call.
\<close>

theorem collect_result:
  "(dict_get (obj s) ''songs'' = Inr (PList xs) \<and> dict_get (obj s) ''albums'' = Inr (PList ys) \<and>
    0 \<le> limit \<longrightarrow>
      Artist_collect limit s =
        (Inr [(''songs'', PList (take (nat limit) xs)), (''artists'', PList [PDict (obj s)]),
              (''albums'', PList (take (nat limit) ys))], s) \<and>
      length (take (nat limit) xs) = min (length xs) (nat limit) \<and>
      length (take (nat limit) ys) = min (length ys) (nat limit)) \<and>
   (dict_get (obj s) ''songs'' = Inr (PList xs) \<and> dict_get (obj s) ''artist'' = Inr a \<and>
    0 \<le> limit \<longrightarrow>
      Album_collect limit s =
        (Inr [(''songs'', PList (take (nat limit) xs)), (''artists'', PList [a]),
              (''albums'', PList [PDict (obj s)])], s) \<and>
      length (take (nat limit) xs) = min (length xs) (nat limit)) \<and>
   (dict_get (obj s) ''artist'' = Inr a \<and> dict_get (obj s) ''album'' = Inr b \<longrightarrow>
      Song_collect l s =
        (Inr [(''songs'', PList [PDict (obj s)]), (''artists'', PList [a]), (''albums'', PList [b])], s))"
  by (auto simp: Artist_collect_def Album_collect_def Song_collect_def ebind_def upto_limit_def
      slice_to_def min_def)

theorem collect_result_witness:
  "Artist_collect 0 \<lparr>obj = discography, lookups = []\<rparr> =
     (Inr [(''songs'', PList []), (''artists'', PList [PDict discography]), (''albums'', PList [])],
      \<lparr>obj = discography, lookups = []\<rparr>) \<and>
   Album_collect 20 \<lparr>obj = disc, lookups = []\<rparr> =
     (Inr [(''songs'', PList []), (''artists'', PList [PDict band]), (''albums'', PList [PDict disc])],
      \<lparr>obj = disc, lookups = []\<rparr>) \<and>
   Song_collect PNone \<lparr>obj = tune, lookups = []\<rparr> =
     (Inr [(''songs'', PList [PDict tune]), (''artists'', PList [PDict band]),
           (''albums'', PList [PDict disc])],
      \<lparr>obj = tune, lookups = []\<rparr>)"
proof -
  have "Artist_collect 0 \<lparr>obj = discography, lookups = []\<rparr> =
     (Inr [(''songs'', PList []), (''artists'', PList [PDict discography]), (''albums'', PList [])],
      \<lparr>obj = discography, lookups = []\<rparr>)"
    using collect_result [of "\<lparr>obj = discography, lookups = []\<rparr>" "[PDict tune]" "[PDict disc]" 0]
    by (simp add: discography_def dict_get_def)
  moreover have "Album_collect 20 \<lparr>obj = disc, lookups = []\<rparr> =
     (Inr [(''songs'', PList []), (''artists'', PList [PDict band]), (''albums'', PList [PDict disc])],
      \<lparr>obj = disc, lookups = []\<rparr>)"
    using collect_result [of "\<lparr>obj = disc, lookups = []\<rparr>" "[]" _ 20 "PDict band"]
    by (simp add: disc_def dict_get_def)
  moreover have "Song_collect PNone \<lparr>obj = tune, lookups = []\<rparr> =
     (Inr [(''songs'', PList [PDict tune]), (''artists'', PList [PDict band]),
           (''albums'', PList [PDict disc])],
      \<lparr>obj = tune, lookups = []\<rparr>)"
    using collect_result [of "\<lparr>obj = tune, lookups = []\<rparr>" _ _ _ "PDict band" "PDict disc" PNone]
    by (simp add: tune_def dict_get_def)
  ultimately show ?thesis by simp
qed

end
